theory Spec2Isabelle
  imports Complex_Main "HOL-Library.AList"
begin

section \<open>Data model\<close>

text \<open>
  Python exception classes. \<open>KeyError\<close> is what a failed subscript on a dict raises and is a
  subclass of \<open>LookupError\<close>; \<open>RuntimeError\<close> carries its message; \<open>ValueError\<close> is what
  unpacking a tuple of the wrong length raises. \<open>ConfigurationError\<close> is the class named by
  the specification's error taxonomy; no source file raises it.
\<close>

datatype error = KeyError | RuntimeError string | ValueError | ConfigurationError

fun is_LookupError :: "error \<Rightarrow> bool" where
  "is_LookupError KeyError = True"
| "is_LookupError _ = False"

text \<open>
  A Python dict is an association list in insertion order; \<open>d[k]\<close> raises \<open>KeyError\<close> when
  the key is absent.
\<close>

definition dict_get :: "('k \<times> 'v) list \<Rightarrow> 'k \<Rightarrow> error + 'v" where
  "dict_get d k = (case map_of d k of None \<Rightarrow> Inl KeyError | Some v \<Rightarrow> Inr v)"

type_synonym NodeId = int
type_synonym EdgeId = "NodeId \<times> NodeId"

text \<open>
  The track graph (its class is not among the source files; the fields read by the code are
  taken as data): \<open>nodes\<close> maps a node to its attribute dict, \<open>prev_edges\<close> maps a node to
  the list of its incoming edges. Python floats are modelled as exact reals.
\<close>

record TrackGraph =
  nodes :: "(NodeId \<times> (string \<times> real) list) list"
  prev_edges :: "(NodeId \<times> EdgeId list) list"

subsection \<open>Linear constraints\<close>

datatype Relation = LessEqual | Equal | GreaterEqual

text \<open>
  \<open>ilpy.LinearConstraint\<close>: a mapping from column index to coefficient, a relation and a
  right-hand side. A fresh constraint has no coefficients, relation \<open>\<le>\<close> and value 0;
  \<open>set_coefficient\<close> stores the coefficient under the column, replacing an earlier one.
\<close>

record LinearConstraint =
  coefficients :: "(nat \<times> real) list"
  relation :: Relation
  rhs :: real

definition new_constraint :: LinearConstraint where
  "new_constraint = \<lparr>coefficients = [], relation = LessEqual, rhs = 0\<rparr>"

definition set_coefficient :: "LinearConstraint \<Rightarrow> nat \<Rightarrow> real \<Rightarrow> LinearConstraint" where
  "set_coefficient c i v = c\<lparr>coefficients := AList.update i v (coefficients c)\<rparr>"

definition set_relation :: "LinearConstraint \<Rightarrow> Relation \<Rightarrow> LinearConstraint" where
  "set_relation c r = c\<lparr>relation := r\<rparr>"

definition set_value :: "LinearConstraint \<Rightarrow> real \<Rightarrow> LinearConstraint" where
  "set_value c v = c\<lparr>rhs := v\<rparr>"

text \<open>
  The meaning of a constraint under a solution vector (one value per column): the weighted
  sum of the columns stands in the relation to the right-hand side.
\<close>

definition lhs :: "LinearConstraint \<Rightarrow> (nat \<Rightarrow> real) \<Rightarrow> real" where
  "lhs c sol = sum_list (map (\<lambda>(i, v). v * sol i) (coefficients c))"

definition satisfied :: "(nat \<Rightarrow> real) \<Rightarrow> LinearConstraint \<Rightarrow> bool" where
  "satisfied sol c =
     (case relation c of
        LessEqual \<Rightarrow> lhs c sol \<le> rhs c
      | Equal \<Rightarrow> lhs c sol = rhs c
      | GreaterEqual \<Rightarrow> lhs c sol \<ge> rhs c)"

definition all_satisfied :: "(nat \<Rightarrow> real) \<Rightarrow> LinearConstraint list \<Rightarrow> bool" where
  "all_satisfied sol cs = list_all (satisfied sol) cs"

subsection \<open>Weights and the solver context\<close>

text \<open>
  Modelled from the spec: the class \<open>Weight\<close> (motile/costs/weight.py is not among the source
  files). \<open>NodeSelection.__init__\<close> wraps the two floats it is given, so only the literal
  variant occurs, and \<open>resolve\<close> returns the wrapped value.
\<close>

datatype Weight = Weight real

fun resolve :: "Weight \<Rightarrow> real" where
  "resolve (Weight v) = v"

text \<open>
  The solver context (its class is not among the source files). The three mappings are what
  \<open>get_variables\<close> returns for \<open>NodeSelected\<close>, \<open>EdgeSelected\<close> and \<open>NodeAppear\<close>: element to
  column index. \<open>objective\<close> is the accumulated objective coefficient of each column and
  \<open>constraints\<close> the constraints added to the model.
\<close>

record Solver =
  graph :: TrackGraph
  node_selected :: "(NodeId \<times> nat) list"
  edge_selected :: "(EdgeId \<times> nat) list"
  node_appear :: "(NodeId \<times> nat) list"
  objective :: "nat \<Rightarrow> real"
  constraints :: "LinearConstraint list"

text \<open>
  Modelled from the spec: \<open>Solver.add_variable_cost(column, value, weight)\<close>, which
  accumulates \<open>weight.resolve() \<times> value\<close> into the objective coefficient of the column.
\<close>

definition add_variable_cost :: "Solver \<Rightarrow> nat \<Rightarrow> real \<Rightarrow> Weight \<Rightarrow> Solver" where
  "add_variable_cost s index v w =
     s\<lparr>objective := (objective s)(index := objective s index + resolve w * v)\<rparr>"

section \<open>NodeAppear (motile/variables/node_appear.py)\<close>

text \<open>\<open>instantiate\<close> returns \<open>solver.graph.nodes\<close>: the nodes of the graph, in its order.\<close>

definition NodeAppear_instantiate :: "Solver \<Rightarrow> NodeId list" where
  "NodeAppear_instantiate s = map fst (nodes (graph s))"

text \<open>
  The loop over \<open>prev_edges\<close> (lines 85 to 87): the column of each incoming edge gets
  coefficient \<open>-1.0\<close> in both constraints.
\<close>

fun set_prev_edges ::
  "(EdgeId \<times> nat) list \<Rightarrow> EdgeId list \<Rightarrow> LinearConstraint \<Rightarrow> LinearConstraint \<Rightarrow>
   error + (LinearConstraint \<times> LinearConstraint)" where
  "set_prev_edges edge_indicators [] c1 c2 = Inr (c1, c2)"
| "set_prev_edges edge_indicators (prev_edge # rest) c1 c2 =
     (case dict_get edge_indicators prev_edge of
        Inl e \<Rightarrow> Inl e
      | Inr i \<Rightarrow>
          set_prev_edges edge_indicators rest
            (set_coefficient c1 i (- 1)) (set_coefficient c2 i (- 1)))"

text \<open>
  The body of the loop over the nodes (lines 48 to 104) for one node: the constraints it
  yields, or the error of a failed subscript. Every subscript of the body is evaluated
  before its first \<open>yield\<close>.
\<close>

definition node_constraints :: "Solver \<Rightarrow> NodeId \<Rightarrow> error + LinearConstraint list" where
  "node_constraints s node =
     (case dict_get (prev_edges (graph s)) node of
        Inl e \<Rightarrow> Inl e
      | Inr pes \<Rightarrow>
          let num_prev_edges = int (length pes) in
          if num_prev_edges = 0 then
            (case dict_get (node_selected s) node of
               Inl e \<Rightarrow> Inl e
             | Inr x \<Rightarrow>
                 (case dict_get (node_appear s) node of
                    Inl e \<Rightarrow> Inl e
                  | Inr a \<Rightarrow>
                      Inr [set_value
                             (set_relation
                                (set_coefficient (set_coefficient new_constraint x 1) a (- 1))
                                Equal)
                             0]))
          else
            (case dict_get (node_selected s) node of
               Inl e \<Rightarrow> Inl e
             | Inr x \<Rightarrow>
                 (case set_prev_edges (edge_selected s) pes
                         (set_coefficient new_constraint x (of_int num_prev_edges))
                         (set_coefficient new_constraint x (of_int num_prev_edges)) of
                    Inl e \<Rightarrow> Inl e
                  | Inr (c1, c2) \<Rightarrow>
                      (case dict_get (node_appear s) node of
                         Inl e \<Rightarrow> Inl e
                       | Inr a \<Rightarrow>
                           Inr [set_value
                                  (set_relation (set_coefficient c1 a (- 1)) LessEqual)
                                  (of_int (num_prev_edges - 1)),
                                set_value
                                  (set_relation
                                     (set_coefficient c2 a (of_int (- num_prev_edges)))
                                     GreaterEqual)
                                  0]))))"

text \<open>
  The generator: the constraints yielded so far, and the error that ended the iteration,
  if any.
\<close>

fun constraints_of_nodes :: "Solver \<Rightarrow> NodeId list \<Rightarrow> LinearConstraint list \<times> error option" where
  "constraints_of_nodes s [] = ([], None)"
| "constraints_of_nodes s (node # rest) =
     (case node_constraints s node of
        Inl e \<Rightarrow> ([], Some e)
      | Inr cs \<Rightarrow>
          (case constraints_of_nodes s rest of (ys, err) \<Rightarrow> (cs @ ys, err)))"

definition NodeAppear_instantiate_constraints ::
  "Solver \<Rightarrow> LinearConstraint list \<times> error option" where
  "NodeAppear_instantiate_constraints s = constraints_of_nodes s (map fst (nodes (graph s)))"

section \<open>NodeSelection (motile/costs/node_selection.py)\<close>

text \<open>The field \<open>constant\<close> of the class is \<open>constant_weight\<close> here.\<close>

record NodeSelection =
  weight :: Weight
  constant_weight :: Weight
  attribute :: string

definition NodeSelection_init :: "real \<Rightarrow> string \<Rightarrow> real \<Rightarrow> NodeSelection" where
  "NodeSelection_init w attr c = \<lparr>weight = Weight w, constant_weight = Weight c, attribute = attr\<rparr>"

text \<open>\<open>solver.graph.nodes[node][attribute]\<close>: two subscripts, each of which may fail.\<close>

definition node_attribute :: "TrackGraph \<Rightarrow> NodeId \<Rightarrow> string \<Rightarrow> error + real" where
  "node_attribute g node attr =
     (case dict_get (nodes g) node of
        Inl e \<Rightarrow> Inl e
      | Inr attrs \<Rightarrow> dict_get attrs attr)"

text \<open>
  The loop of \<open>apply\<close> over \<open>node_variables.items()\<close>. The solver is mutated in place, so
  the result is the solver as the call leaves it, together with the exception raised, if
  any. The arguments of the first \<open>add_variable_cost\<close> are evaluated before it is called.
\<close>

fun apply_items :: "NodeSelection \<Rightarrow> (NodeId \<times> nat) list \<Rightarrow> Solver \<Rightarrow> error option \<times> Solver" where
  "apply_items c [] s = (None, s)"
| "apply_items c ((node, index) # rest) s =
     (case node_attribute (graph s) node (attribute c) of
        Inl e \<Rightarrow> (Some e, s)
      | Inr v \<Rightarrow>
          apply_items c rest
            (add_variable_cost (add_variable_cost s index v (weight c)) index 1 (constant_weight c)))"

definition NodeSelection_apply :: "NodeSelection \<Rightarrow> Solver \<Rightarrow> error option \<times> Solver" where
  "NodeSelection_apply c s = apply_items c (node_selected s) s"

section \<open>Argument checks of draw_track_graph (motile/plot.py)\<close>

text \<open>
  \<open>alpha_func\<close> and \<open>label_func\<close> are either one callable or a tuple of callables. The
  assignment \<open>node_func, edge_func = func\<close> unpacks a tuple of two, raises \<open>ValueError\<close> on a
  tuple of another length, and raises \<open>TypeError\<close> on a callable, which the code catches
  and answers by using the callable for both.
\<close>

datatype 'f func_arg = Callable 'f | Tuple "'f list"

fun unpack_pair :: "'f func_arg \<Rightarrow> error + ('f \<times> 'f)" where
  "unpack_pair (Tuple [a, b]) = Inr (a, b)"
| "unpack_pair (Tuple _) = Inl ValueError"
| "unpack_pair (Callable f) = Inr (f, f)"

text \<open>The accessors picked by lines 69 to 132, with the local closures as constructors.\<close>

datatype 'f position_fn = PositionAttribute string | PositionFunc 'f
datatype 'f alpha_fn = AlphaAttribute string | AlphaOne | AlphaFunc 'f
datatype 'f label_fn = LabelAttribute string | LabelStr | LabelFunc 'f

record 'f draw_args =
  position_attribute :: "string option"
  position_func :: "'f option"
  alpha_attribute :: "string option"
  alpha_func :: "'f func_arg option"
  label_attribute :: "string option"
  label_func :: "'f func_arg option"

record 'f accessors =
  position :: "'f position_fn"
  alpha_node :: "'f alpha_fn"
  alpha_edge :: "'f alpha_fn"
  label_node :: "'f label_fn"
  label_edge :: "'f label_fn"

definition pick_position :: "'f draw_args \<Rightarrow> error + 'f position_fn" where
  "pick_position a =
     (if position_attribute a \<noteq> None \<and> position_func a \<noteq> None then
        Inl (RuntimeError ''Only one of position_attribute and position_func can be given'')
      else
        let attr = (case position_attribute a of None \<Rightarrow> ''x'' | Some n \<Rightarrow> n) in
        (case position_func a of
           None \<Rightarrow> Inr (PositionAttribute attr)
         | Some f \<Rightarrow> Inr (PositionFunc f)))"

definition pick_alpha :: "'f draw_args \<Rightarrow> error + ('f alpha_fn \<times> 'f alpha_fn)" where
  "pick_alpha a =
     (if alpha_attribute a \<noteq> None \<and> alpha_func a \<noteq> None then
        Inl (RuntimeError ''Only one of alpha_attribute and alpha_func can be given'')
      else
        (case alpha_attribute a of
           Some n \<Rightarrow> Inr (AlphaAttribute n, AlphaAttribute n)
         | None \<Rightarrow>
             (case alpha_func a of
                None \<Rightarrow> Inr (AlphaOne, AlphaOne)
              | Some f \<Rightarrow>
                  (case unpack_pair f of
                     Inl e \<Rightarrow> Inl e
                   | Inr (node_f, edge_f) \<Rightarrow> Inr (AlphaFunc node_f, AlphaFunc edge_f)))))"

definition pick_label :: "'f draw_args \<Rightarrow> error + ('f label_fn \<times> 'f label_fn)" where
  "pick_label a =
     (if label_attribute a \<noteq> None \<and> label_func a \<noteq> None then
        Inl (RuntimeError ''Only one of label_attribute and label_func can be given'')
      else
        (case label_attribute a of
           Some n \<Rightarrow> Inr (LabelAttribute n, LabelAttribute n)
         | None \<Rightarrow>
             (case label_func a of
                None \<Rightarrow> Inr (LabelStr, LabelStr)
              | Some f \<Rightarrow>
                  (case unpack_pair f of
                     Inl e \<Rightarrow> Inl e
                   | Inr (node_f, edge_f) \<Rightarrow> Inr (LabelFunc node_f, LabelFunc edge_f)))))"

text \<open>
  Lines 69 to 132 of \<open>draw_track_graph\<close>, in the order of the source: the position check,
  the alpha check, the label check. The drawing that follows is not modelled; when one of
  the three steps raises, the function raises that exception and draws nothing.
\<close>

definition draw_track_graph :: "'f draw_args \<Rightarrow> error + 'f accessors" where
  "draw_track_graph a =
     (case pick_position a of
        Inl e \<Rightarrow> Inl e
      | Inr p \<Rightarrow>
          (case pick_alpha a of
             Inl e \<Rightarrow> Inl e
           | Inr (alpha_n, alpha_e) \<Rightarrow>
               (case pick_label a of
                  Inl e \<Rightarrow> Inl e
                | Inr (label_n, label_e) \<Rightarrow>
                    Inr \<lparr>position = p, alpha_node = alpha_n, alpha_edge = alpha_e,
                         label_node = label_n, label_edge = label_e\<rparr>)))"

section \<open>Auxiliary notions for the statements\<close>

text \<open>
  A solution vector is feasible for a node when it satisfies every constraint that
  \<open>instantiate_constraints\<close> yields for that node.
\<close>

definition appear_feasible :: "Solver \<Rightarrow> NodeId \<Rightarrow> (nat \<Rightarrow> real) \<Rightarrow> bool" where
  "appear_feasible s v sol =
     (case node_constraints s v of Inl e \<Rightarrow> False | Inr cs \<Rightarrow> all_satisfied sol cs)"

text \<open>
  The two inequalities as the docstring of \<open>NodeAppear\<close> writes them, for the column \<open>x\<close> of
  the node, the columns \<open>ecols\<close> of its incoming edges and the column \<open>a\<close> of its appear
  indicator.
\<close>

definition general_constraint1 :: "nat \<Rightarrow> nat list \<Rightarrow> nat \<Rightarrow> LinearConstraint" where
  "general_constraint1 x ecols a =
     \<lparr>coefficients = (x, real (length ecols)) # map (\<lambda>i. (i, - 1)) ecols @ [(a, - 1)],
      relation = LessEqual, rhs = real (length ecols) - 1\<rparr>"

definition general_constraint2 :: "nat \<Rightarrow> nat list \<Rightarrow> nat \<Rightarrow> LinearConstraint" where
  "general_constraint2 x ecols a =
     \<lparr>coefficients =
        (x, real (length ecols)) # map (\<lambda>i. (i, - 1)) ecols @ [(a, - real (length ecols))],
      relation = GreaterEqual, rhs = 0\<rparr>"

text \<open>
  What one node adds to the objective coefficient of its column (the weighted attribute and
  the constant), and the sum of it over the listed nodes whose column is \<open>j\<close>.
\<close>

definition node_cost :: "NodeSelection \<Rightarrow> TrackGraph \<Rightarrow> NodeId \<Rightarrow> real" where
  "node_cost c g node =
     (case node_attribute g node (attribute c) of
        Inl e \<Rightarrow> 0
      | Inr v \<Rightarrow> resolve (weight c) * v + resolve (constant_weight c) * 1)"

definition contributions ::
  "NodeSelection \<Rightarrow> TrackGraph \<Rightarrow> (NodeId \<times> nat) list \<Rightarrow> nat \<Rightarrow> real" where
  "contributions c g items j =
     sum_list (map (\<lambda>(node, index). node_cost c g node)
       (filter (\<lambda>(node, index). index = j) items))"

subsection \<open>Example inputs\<close>

text \<open>The solution vector that selects exactly the listed columns.\<close>

definition select_columns :: "nat list \<Rightarrow> nat \<Rightarrow> real" where
  "select_columns cols i = (if i \<in> set cols then 1 else 0)"

text \<open>
  The chain \<open>A \<rightarrow> B \<rightarrow> C\<close> with nodes 0, 1, 2, one frame apart, each with cost attribute 1.
  Columns: 0 to 2 for the node selections, 3 and 4 for the edges \<open>(A, B)\<close> and \<open>(B, C)\<close>,
  5 to 7 for the appear indicators.
\<close>

definition chain_graph :: TrackGraph where
  "chain_graph =
     \<lparr>nodes = [(0, [(''t'', 0), (''costs'', 1)]),
               (1, [(''t'', 1), (''costs'', 1)]),
               (2, [(''t'', 2), (''costs'', 1)])],
      prev_edges = [(0, []), (1, [(0, 1)]), (2, [(1, 2)])]\<rparr>"

definition chain_solver :: Solver where
  "chain_solver =
     \<lparr>graph = chain_graph,
      node_selected = [(0, 0), (1, 1), (2, 2)],
      edge_selected = [((0, 1), 3), ((1, 2), 4)],
      node_appear = [(0, 5), (1, 6), (2, 7)],
      objective = (\<lambda>_. 0),
      constraints = []\<rparr>"

definition chain_costs :: NodeSelection where
  "chain_costs = NodeSelection_init 2 ''costs'' 0.5"

text \<open>The same chain, where node \<open>B\<close> has no cost attribute.\<close>

definition chain_solver_no_costs :: Solver where
  "chain_solver_no_costs =
     chain_solver\<lparr>graph := chain_graph\<lparr>nodes :=
       [(0, [(''t'', 0), (''costs'', 1)]), (1, [(''t'', 1)]), (2, [(''t'', 2), (''costs'', 1)])]\<rparr>\<rparr>"

text \<open>The same chain before any variable is registered.\<close>

definition chain_solver_no_variables :: Solver where
  "chain_solver_no_variables =
     chain_solver\<lparr>node_selected := [], edge_selected := [], node_appear := []\<rparr>"

text \<open>
  Two nodes 0 and 1 in one frame, both linked to node 2 in the next: node 2 has two
  incoming edges, with columns 3 and 4.
\<close>

definition merge_graph :: TrackGraph where
  "merge_graph =
     \<lparr>nodes = [(0, [(''t'', 0)]), (1, [(''t'', 0)]), (2, [(''t'', 1)])],
      prev_edges = [(0, []), (1, []), (2, [(0, 2), (1, 2)])]\<rparr>"

definition merge_solver :: Solver where
  "merge_solver =
     \<lparr>graph = merge_graph,
      node_selected = [(0, 0), (1, 1), (2, 2)],
      edge_selected = [((0, 2), 3), ((1, 2), 4)],
      node_appear = [(0, 5), (1, 6), (2, 7)],
      objective = (\<lambda>_. 0),
      constraints = []\<rparr>"

text \<open>Arguments of \<open>draw_track_graph\<close>: a callable, the defaults, and four calls.\<close>

definition unit_alpha :: "NodeId \<Rightarrow> real" where
  "unit_alpha node = 1"

definition no_args :: "'f draw_args" where
  "no_args =
     \<lparr>position_attribute = None, position_func = None,
      alpha_attribute = None, alpha_func = None,
      label_attribute = None, label_func = None\<rparr>"

definition both_position :: "(NodeId \<Rightarrow> real) draw_args" where
  "both_position = no_args\<lparr>position_attribute := Some ''y'', position_func := Some unit_alpha\<rparr>"

definition both_alpha :: "(NodeId \<Rightarrow> real) draw_args" where
  "both_alpha =
     no_args\<lparr>alpha_attribute := Some ''score'', alpha_func := Some (Callable unit_alpha)\<rparr>"

definition both_label :: "(NodeId \<Rightarrow> real) draw_args" where
  "both_label =
     no_args\<lparr>label_attribute := Some ''name'',
             label_func := Some (Tuple [unit_alpha, unit_alpha])\<rparr>"

definition both_label_bad_alpha :: "(NodeId \<Rightarrow> real) draw_args" where
  "both_label_bad_alpha =
     both_label\<lparr>alpha_func := Some (Tuple [unit_alpha, unit_alpha, unit_alpha])\<rparr>"

section \<open>Dicts and coefficient mappings\<close>

lemma update_fresh: "k \<notin> fst ` set al \<Longrightarrow> AList.update k v al = al @ [(k, v)]"
  by (induction al) auto

lemma update_has_entry: "(k, v) \<in> set (AList.update k v al)"
  by (induction al) auto

lemma set_prev_edges_Inr:
  "map (dict_get ei) es = map Inr ecols \<Longrightarrow>
   set_prev_edges ei es c1 c2 =
     Inr (foldl (\<lambda>c i. set_coefficient c i (- 1)) c1 ecols,
          foldl (\<lambda>c i. set_coefficient c i (- 1)) c2 ecols)"
proof (induction es arbitrary: ecols c1 c2)
  case Nil
  then show ?case by simp
next
  case (Cons e es)
  then obtain i rest where ecols: "ecols = i # rest" by (cases ecols) auto
  with Cons.prems have "dict_get ei e = Inr i" "map (dict_get ei) es = map Inr rest" by auto
  with Cons.IH ecols show ?case by simp
qed

lemma foldl_set_coefficient:
  "distinct (map fst (coefficients c) @ ecols) \<Longrightarrow>
   foldl (\<lambda>c i. set_coefficient c i (- 1)) c ecols =
     c\<lparr>coefficients := coefficients c @ map (\<lambda>i. (i, - 1)) ecols\<rparr>"
proof (induction ecols arbitrary: c)
  case Nil
  then show ?case by simp
next
  case (Cons i ecols)
  have fresh: "i \<notin> fst ` set (coefficients c)" using Cons.prems by auto
  have step: "coefficients (set_coefficient c i (- 1)) = coefficients c @ [(i, - 1)]"
    by (simp add: set_coefficient_def update_fresh [OF fresh])
  have "distinct (map fst (coefficients (set_coefficient c i (- 1))) @ ecols)"
    using Cons.prems by (auto simp: step)
  from Cons.IH [OF this] show ?case by (simp add: step) (simp add: set_coefficient_def)
qed

section \<open>The constraints of one node\<close>

lemma node_constraints_general:
  assumes prev: "dict_get (prev_edges (graph s)) v = Inr es" and ne: "es \<noteq> []"
    and x: "dict_get (node_selected s) v = Inr x"
    and e: "map (dict_get (edge_selected s)) es = map Inr ecols"
    and a: "dict_get (node_appear s) v = Inr a"
    and d: "distinct (x # ecols @ [a])"
  shows "node_constraints s v = Inr [general_constraint1 x ecols a, general_constraint2 x ecols a]"
proof -
  have len: "length ecols = length es" using e by (metis length_map)
  let ?c0 = "set_coefficient new_constraint x (real (length es))"
  let ?s = "\<lparr>coefficients = (x, real (length es)) # map (\<lambda>i. (i, - 1)) ecols,
             relation = LessEqual, rhs = 0\<rparr>"
  have c0: "coefficients ?c0 = [(x, real (length es))]"
    by (simp add: set_coefficient_def new_constraint_def)
  have dc: "distinct (map fst (coefficients ?c0) @ ecols)" unfolding c0 using d by simp
  have fold: "foldl (\<lambda>c i. set_coefficient c i (- 1)) ?c0 ecols = ?s"
    by (simp add: foldl_set_coefficient [OF dc] c0)
      (simp add: set_coefficient_def new_constraint_def)
  have fresh: "a \<notin> fst ` set ((x, real (length es)) # map (\<lambda>i. (i, - 1)) ecols)"
    using d by (auto simp: image_iff)
  have sp: "set_prev_edges (edge_selected s) es ?c0 ?c0 = Inr (?s, ?s)"
    unfolding set_prev_edges_Inr [OF e] fold by simp
  have upd: "AList.update a w ((x, real (length es)) # map (\<lambda>i. (i, - 1)) ecols) =
      ((x, real (length es)) # map (\<lambda>i. (i, - 1)) ecols) @ [(a, w)]" for w
    by (rule update_fresh [OF fresh])
  have "node_constraints s v =
      Inr [set_value (set_relation (set_coefficient ?s a (- 1)) LessEqual)
             (real (length es) - 1),
           set_value (set_relation (set_coefficient ?s a (- real (length es))) GreaterEqual) 0]"
    unfolding node_constraints_def by (simp add: prev x a ne Let_def sp)
  also have "\<dots> = Inr [general_constraint1 x ecols a, general_constraint2 x ecols a]"
    unfolding set_coefficient_def set_value_def set_relation_def
      general_constraint1_def general_constraint2_def
    by (simp add: upd len del: AList.update.simps)
  finally show ?thesis .
qed

lemma node_constraints_zero:
  assumes prev: "dict_get (prev_edges (graph s)) v = Inr []"
    and x: "dict_get (node_selected s) v = Inr x"
    and a: "dict_get (node_appear s) v = Inr a"
    and d: "x \<noteq> a"
  shows "node_constraints s v =
    Inr [\<lparr>coefficients = [(x, 1), (a, - 1)], relation = Equal, rhs = 0\<rparr>]"
  unfolding node_constraints_def using d
  by (simp add: prev x a set_value_def set_relation_def set_coefficient_def new_constraint_def)

lemma node_constraints_nonzero:
  assumes "node_constraints s v = Inr cs" "c \<in> set cs"
  shows "\<exists>(i, w)\<in>set (coefficients c). w \<noteq> 0"
proof -
  define P where "P = (\<lambda>c::LinearConstraint. \<exists>(i, w)\<in>set (coefficients c). w \<noteq> 0)"
  have key: "P (set_value (set_relation (set_coefficient c0 a w0) r) q)"
    if "w0 \<noteq> 0" for c0 a w0 r q
    unfolding P_def
    using that update_has_entry [of a w0 "coefficients c0"]
    by (auto simp: set_value_def set_relation_def set_coefficient_def
        simp del: AList.update.simps)
  from assms have "P c"
    unfolding node_constraints_def Let_def
    by (auto split: sum.splits if_splits prod.splits intro!: key)
  then show ?thesis unfolding P_def .
qed

lemma constraints_of_nodes_nonzero:
  "c \<in> set (fst (constraints_of_nodes s ns)) \<Longrightarrow> \<exists>(i, w)\<in>set (coefficients c). w \<noteq> 0"
proof (induction ns)
  case Nil
  then show ?case by simp
next
  case (Cons n ns)
  show ?case
  proof (cases "node_constraints s n")
    case (Inl e)
    with Cons.prems show ?thesis by simp
  next
    case (Inr cs)
    with Cons.prems have "c \<in> set cs \<or> c \<in> set (fst (constraints_of_nodes s ns))"
      by (auto split: prod.splits)
    then show ?thesis using node_constraints_nonzero [OF Inr] Cons.IH by blast
  qed
qed

section \<open>Feasible values of the appear indicator\<close>

lemma lhs_general1:
  "lhs (general_constraint1 x ecols a) sol =
     real (length ecols) * sol x - sum_list (map sol ecols) - sol a"
proof -
  have "sum_list (map ((\<lambda>(i, v). v * sol i) \<circ> (\<lambda>i. (i, - 1))) ecols) =
      - sum_list (map sol ecols)"
    by (induction ecols) auto
  then show ?thesis by (simp add: lhs_def general_constraint1_def)
qed

lemma lhs_general2:
  "lhs (general_constraint2 x ecols a) sol =
     real (length ecols) * sol x - sum_list (map sol ecols) - real (length ecols) * sol a"
proof -
  have "sum_list (map ((\<lambda>(i, v). v * sol i) \<circ> (\<lambda>i. (i, - 1))) ecols) =
      - sum_list (map sol ecols)"
    by (induction ecols) auto
  then show ?thesis by (simp add: lhs_def general_constraint2_def)
qed

lemma satisfied_general:
  "all_satisfied sol [general_constraint1 x ecols a, general_constraint2 x ecols a] \<longleftrightarrow>
     real (length ecols) * sol x - sum_list (map sol ecols) - sol a \<le> real (length ecols) - 1 \<and>
     0 \<le> real (length ecols) * sol x - sum_list (map sol ecols) - real (length ecols) * sol a"
proof -
  have "relation (general_constraint1 x ecols a) = LessEqual"
    "rhs (general_constraint1 x ecols a) = real (length ecols) - 1"
    "relation (general_constraint2 x ecols a) = GreaterEqual"
    "rhs (general_constraint2 x ecols a) = 0"
    by (simp_all add: general_constraint1_def general_constraint2_def)
  then show ?thesis
    unfolding all_satisfied_def satisfied_def by (simp add: lhs_general1 lhs_general2)
qed

lemma binary_sum_bounds:
  "\<forall>i\<in>set ecols. sol i = 0 \<or> sol i = (1::real) \<Longrightarrow>
   0 \<le> sum_list (map sol ecols) \<and> sum_list (map sol ecols) \<le> real (length ecols) \<and>
   (sum_list (map sol ecols) = 0 \<longleftrightarrow> (\<forall>i\<in>set ecols. sol i = 0)) \<and>
   ((\<exists>i\<in>set ecols. sol i = 1) \<longrightarrow> 1 \<le> sum_list (map sol ecols))"
  by (induction ecols) auto

lemma sum_list_upd_other:
  "a \<notin> set ecols \<Longrightarrow> sum_list (map (sol(a := b)) ecols) = sum_list (map sol ecols)"
  by (induction ecols) auto

lemma appear_feasible_iff:
  assumes d: "distinct (x # ecols @ [a])" and ne: "ecols \<noteq> []"
    and bx: "sol x = 0 \<or> sol x = 1"
    and be: "\<forall>i\<in>set ecols. sol i = 0 \<or> sol i = 1"
    and bb: "b = 0 \<or> b = 1"
  shows "all_satisfied (sol(a := b))
           [general_constraint1 x ecols a, general_constraint2 x ecols a] \<longleftrightarrow>
     (sol x = 1 \<or> (\<forall>i\<in>set ecols. sol i = 0)) \<and>
     (b = 1 \<longleftrightarrow> sol x = 1 \<and> (\<forall>i\<in>set ecols. sol i = 0))"
proof -
  define S where "S = sum_list (map sol ecols)"
  define k where "k = real (length ecols)"
  have k1: "1 \<le> k" using ne unfolding k_def by (cases ecols) auto
  have S0: "0 \<le> S" and Sk: "S \<le> k" and Sz: "S = 0 \<longleftrightarrow> (\<forall>i\<in>set ecols. sol i = 0)"
    and S1: "(\<exists>i\<in>set ecols. sol i = 1) \<Longrightarrow> 1 \<le> S"
    using binary_sum_bounds [OF be] unfolding S_def k_def by auto
  have nz: "S \<noteq> 0 \<Longrightarrow> 1 \<le> S" using Sz S1 be by blast
  have xa: "x \<noteq> a" and an: "a \<notin> set ecols" using d by auto
  have sat: "all_satisfied (sol(a := b))
        [general_constraint1 x ecols a, general_constraint2 x ecols a] \<longleftrightarrow>
      k * sol x - S - b \<le> k - 1 \<and> 0 \<le> k * sol x - S - k * b"
    unfolding satisfied_general using xa by (simp add: sum_list_upd_other [OF an] S_def k_def)
  have "(k * sol x - S - b \<le> k - 1 \<and> 0 \<le> k * sol x - S - k * b) \<longleftrightarrow>
      (sol x = 1 \<or> S = 0) \<and> (b = 1 \<longleftrightarrow> sol x = 1 \<and> S = 0)"
  proof (cases "S = 0")
    case True
    with bx bb k1 show ?thesis by auto
  next
    case False
    then have "1 \<le> S" by (rule nz)
    with bx bb k1 Sk show ?thesis by auto
  qed
  then show ?thesis unfolding sat Sz .
qed

section \<open>The generator over the nodes\<close>

text \<open>
  While the bodies of the nodes in \<open>pre\<close> succeed, the generator yields their constraints
  in order and goes on with the rest of the nodes.
\<close>

lemma constraints_of_nodes_append:
  "map (node_constraints s) pre = map Inr pcs \<Longrightarrow>
   constraints_of_nodes s (pre @ rest) =
     (concat pcs @ fst (constraints_of_nodes s rest), snd (constraints_of_nodes s rest))"
proof (induction pre arbitrary: pcs)
  case Nil
  then show ?case by simp
next
  case (Cons n pre)
  then obtain cs pcs' where pcs: "pcs = cs # pcs'" by (cases pcs) auto
  with Cons.prems have n: "node_constraints s n = Inr cs"
    and pre: "map (node_constraints s) pre = map Inr pcs'" by auto
  from Cons.IH [OF pre] show ?case by (simp add: n pcs)
qed

lemma constraints_of_nodes_all:
  "map (node_constraints s) ns = map Inr css \<Longrightarrow>
   constraints_of_nodes s ns = (concat css, None)"
  using constraints_of_nodes_append [of s ns css "[]"] by simp

lemma generator_at_node:
  assumes nodes: "map fst (nodes (graph s)) = pre @ v # post"
    and earlier: "map (node_constraints s) pre = map Inr pcs"
    and v: "node_constraints s v = Inr cs"
  shows "NodeAppear_instantiate_constraints s =
     (concat pcs @ cs @ fst (constraints_of_nodes s post), snd (constraints_of_nodes s post))"
  unfolding NodeAppear_instantiate_constraints_def nodes
    constraints_of_nodes_append [OF earlier]
  by (simp add: v split: prod.splits)

section \<open>The example solvers, evaluated\<close>

lemma chain_lookups:
  "dict_get (prev_edges (graph chain_solver)) 0 = Inr []"
  "dict_get (node_selected chain_solver) 0 = Inr 0"
  "dict_get (node_appear chain_solver) 0 = Inr 5"
  by (simp_all add: chain_solver_def chain_graph_def dict_get_def)

lemma merge_lookups:
  "dict_get (prev_edges (graph merge_solver)) 2 = Inr [(0, 2), (1, 2)]"
  "dict_get (node_selected merge_solver) 2 = Inr 2"
  "dict_get (node_appear merge_solver) 2 = Inr 7"
  "dict_get (edge_selected merge_solver) (0, 2) = Inr 3"
  "dict_get (edge_selected merge_solver) (1, 2) = Inr 4"
  by (simp_all add: merge_solver_def merge_graph_def dict_get_def)

lemma chain_node_constraints:
  "node_constraints chain_solver 0 =
     Inr [\<lparr>coefficients = [(0, 1), (5, - 1)], relation = Equal, rhs = 0\<rparr>]"
  "node_constraints chain_solver 1 =
     Inr [\<lparr>coefficients = [(1, 1), (3, - 1), (6, - 1)], relation = LessEqual, rhs = 0\<rparr>,
          \<lparr>coefficients = [(1, 1), (3, - 1), (6, - 1)], relation = GreaterEqual, rhs = 0\<rparr>]"
  "node_constraints chain_solver 2 =
     Inr [\<lparr>coefficients = [(2, 1), (4, - 1), (7, - 1)], relation = LessEqual, rhs = 0\<rparr>,
          \<lparr>coefficients = [(2, 1), (4, - 1), (7, - 1)], relation = GreaterEqual, rhs = 0\<rparr>]"
  by (simp_all add: chain_solver_def chain_graph_def
      node_constraints_def dict_get_def set_coefficient_def set_relation_def set_value_def
      new_constraint_def)

lemma merge_node_constraints:
  "node_constraints merge_solver 2 =
     Inr [\<lparr>coefficients = [(2, 2), (3, - 1), (4, - 1), (7, - 1)],
           relation = LessEqual, rhs = 1\<rparr>,
          \<lparr>coefficients = [(2, 2), (3, - 1), (4, - 1), (7, - 2)],
           relation = GreaterEqual, rhs = 0\<rparr>]"
  by (simp add: merge_solver_def merge_graph_def
      node_constraints_def dict_get_def set_coefficient_def set_relation_def set_value_def
      new_constraint_def)

lemma chain_nodes: "map fst (nodes (graph chain_solver)) = [] @ 0 # [1, 2]"
  by (simp add: chain_solver_def chain_graph_def)

lemma merge_nodes: "map fst (nodes (graph merge_solver)) = [0, 1] @ 2 # []"
  by (simp add: merge_solver_def merge_graph_def)

lemma merge_earlier:
  "map (node_constraints merge_solver) [0, 1] =
     map Inr [[\<lparr>coefficients = [(0, 1), (5, - 1)], relation = Equal, rhs = 0\<rparr>],
              [\<lparr>coefficients = [(1, 1), (6, - 1)], relation = Equal, rhs = 0\<rparr>]]"
  by (simp add: merge_solver_def merge_graph_def
      node_constraints_def dict_get_def set_coefficient_def set_relation_def set_value_def
      new_constraint_def)

lemma chain_later:
  "constraints_of_nodes chain_solver [1, 2] =
    ([\<lparr>coefficients = [(1, 1), (3, - 1), (6, - 1)], relation = LessEqual, rhs = 0\<rparr>,
      \<lparr>coefficients = [(1, 1), (3, - 1), (6, - 1)], relation = GreaterEqual, rhs = 0\<rparr>,
      \<lparr>coefficients = [(2, 1), (4, - 1), (7, - 1)], relation = LessEqual, rhs = 0\<rparr>,
      \<lparr>coefficients = [(2, 1), (4, - 1), (7, - 1)], relation = GreaterEqual, rhs = 0\<rparr>], None)"
  by (simp add: chain_node_constraints)

lemma chain_constraints:
  "NodeAppear_instantiate_constraints chain_solver =
    ([\<lparr>coefficients = [(0, 1), (5, - 1)], relation = Equal, rhs = 0\<rparr>,
      \<lparr>coefficients = [(1, 1), (3, - 1), (6, - 1)], relation = LessEqual, rhs = 0\<rparr>,
      \<lparr>coefficients = [(1, 1), (3, - 1), (6, - 1)], relation = GreaterEqual, rhs = 0\<rparr>,
      \<lparr>coefficients = [(2, 1), (4, - 1), (7, - 1)], relation = LessEqual, rhs = 0\<rparr>,
      \<lparr>coefficients = [(2, 1), (4, - 1), (7, - 1)], relation = GreaterEqual, rhs = 0\<rparr>], None)"
  by (simp add: NodeAppear_instantiate_constraints_def chain_solver_def chain_graph_def
      node_constraints_def dict_get_def set_coefficient_def set_relation_def set_value_def
      new_constraint_def)

section \<open>NodeAppear: the yielded constraints\<close>

text \<open>
  C9: every constraint yielded by \<open>NodeAppear.instantiate_constraints\<close>, for any solver and
  graph and also when the iteration later ends in an error, has a coefficient mapping that
  is not empty and holds a nonzero coefficient.
\<close>

theorem emitted_constraint_has_nonzero_coefficient:
  "c \<in> set (fst (NodeAppear_instantiate_constraints s)) \<Longrightarrow>
   coefficients c \<noteq> [] \<and> (\<exists>(i, w)\<in>set (coefficients c). w \<noteq> 0)"
  unfolding NodeAppear_instantiate_constraints_def
  using constraints_of_nodes_nonzero [of c s "map fst (nodes (graph s))"] by auto

theorem emitted_constraint_has_nonzero_coefficient_witness:
  "\<lparr>coefficients = [(1, 1), (3, - 1), (6, - 1)], relation = GreaterEqual, rhs = 0\<rparr>
     \<in> set (fst (NodeAppear_instantiate_constraints chain_solver)) \<and>
   coefficients
     \<lparr>coefficients = [(1, 1), (3, - 1), (6, - 1)], relation = GreaterEqual, rhs = 0\<rparr> \<noteq> [] \<and>
   (\<exists>(i, w)\<in>set (coefficients
       \<lparr>coefficients = [(1, 1), (3, - 1), (6, - 1)], relation = GreaterEqual, rhs = (0::real)\<rparr>).
      w \<noteq> 0)"
proof -
  have m: "\<lparr>coefficients = [(1, 1), (3, - 1), (6, - 1)], relation = GreaterEqual, rhs = 0\<rparr>
     \<in> set (fst (NodeAppear_instantiate_constraints chain_solver))"
    by (simp add: chain_constraints)
  from emitted_constraint_has_nonzero_coefficient [OF m] m show ?thesis by blast
qed

text \<open>
  C2: let \<open>v\<close> be a node of the graph with no incoming edge, whose selection column \<open>x\<close> and
  appear column \<open>a\<close> are registered and differ, and let the bodies of the nodes before \<open>v\<close>
  succeed, so that the generator reaches \<open>v\<close>. Then \<open>NodeAppear.instantiate_constraints\<close>
  yields the constraints of the earlier nodes, then exactly one constraint for \<open>v\<close>, then
  what the nodes after \<open>v\<close> yield. That constraint has coefficient 1 on \<open>x\<close>, coefficient
  -1 on \<open>a\<close>, relation \<open>=\<close> and right-hand side 0, and a solution vector satisfies it
  exactly when its value at \<open>a\<close> equals its value at \<open>x\<close>.
\<close>

theorem no_incoming_edges_single_equality:
  assumes nodes: "map fst (nodes (graph s)) = pre @ v # post"
    and earlier: "map (node_constraints s) pre = map Inr pcs"
    and prev: "dict_get (prev_edges (graph s)) v = Inr []"
    and x: "dict_get (node_selected s) v = Inr x"
    and a: "dict_get (node_appear s) v = Inr a"
    and d: "x \<noteq> a"
  shows "NodeAppear_instantiate_constraints s =
           (concat pcs @
            [\<lparr>coefficients = [(x, 1), (a, - 1)], relation = Equal, rhs = 0\<rparr>] @
            fst (constraints_of_nodes s post),
            snd (constraints_of_nodes s post)) \<and>
         node_constraints s v =
           Inr [\<lparr>coefficients = [(x, 1), (a, - 1)], relation = Equal, rhs = 0\<rparr>] \<and>
         (appear_feasible s v sol \<longleftrightarrow> sol a = sol x)"
proof -
  note body = node_constraints_zero [OF prev x a d]
  have "appear_feasible s v sol \<longleftrightarrow> sol a = sol x"
    unfolding appear_feasible_def body
    by (auto simp: all_satisfied_def satisfied_def lhs_def)
  with generator_at_node [OF nodes earlier body] body show ?thesis by simp
qed

theorem no_incoming_edges_single_equality_witness:
  "NodeAppear_instantiate_constraints chain_solver =
    ([\<lparr>coefficients = [(0, 1), (5, - 1)], relation = Equal, rhs = 0\<rparr>,
      \<lparr>coefficients = [(1, 1), (3, - 1), (6, - 1)], relation = LessEqual, rhs = 0\<rparr>,
      \<lparr>coefficients = [(1, 1), (3, - 1), (6, - 1)], relation = GreaterEqual, rhs = 0\<rparr>,
      \<lparr>coefficients = [(2, 1), (4, - 1), (7, - 1)], relation = LessEqual, rhs = 0\<rparr>,
      \<lparr>coefficients = [(2, 1), (4, - 1), (7, - 1)], relation = GreaterEqual, rhs = 0\<rparr>],
     None) \<and>
   node_constraints chain_solver 0 =
     Inr [\<lparr>coefficients = [(0, 1), (5, - 1)], relation = Equal, rhs = 0\<rparr>] \<and>
   (appear_feasible chain_solver 0 (select_columns [0, 3, 5]) \<longleftrightarrow>
      select_columns [0, 3, 5] 5 = select_columns [0, 3, 5] 0) \<and>
   appear_feasible chain_solver 0 (select_columns [0, 3, 5]) \<and>
   \<not> appear_feasible chain_solver 0 (select_columns [0, 3])"
proof -
  have earlier: "map (node_constraints chain_solver) [] = map Inr []" by simp
  have d: "(0::nat) \<noteq> 5" by simp
  note t = no_incoming_edges_single_equality
    [OF chain_nodes earlier chain_lookups d, unfolded chain_later]
  from t [of "select_columns [0, 3, 5]"] t [of "select_columns [0, 3]"]
  show ?thesis by (simp add: select_columns_def)
qed

text \<open>
  C3: let \<open>v\<close> be a node of the graph with \<open>k \<ge> 1\<close> incoming edges, whose selection column
  \<open>x\<close>, edge columns \<open>ecols\<close> and appear column \<open>a\<close> are registered and pairwise distinct,
  and let the bodies of the nodes before \<open>v\<close> succeed, so that the generator reaches \<open>v\<close>.
  Then \<open>NodeAppear.instantiate_constraints\<close> yields the constraints of the earlier nodes,
  then exactly two constraints for \<open>v\<close>, then what the nodes after \<open>v\<close> yield. The first of
  the two has coefficient \<open>k\<close> on \<open>x\<close>, -1 on every edge column and -1 on \<open>a\<close>, relation
  \<open>\<le>\<close> and right-hand side \<open>k - 1\<close>; the second has coefficient \<open>k\<close> on \<open>x\<close>, -1 on every
  edge column and \<open>-k\<close> on \<open>a\<close>, relation \<open>\<ge>\<close> and right-hand side 0. No constant other
  than \<open>k\<close> occurs.
\<close>

theorem incoming_edges_two_inequalities:
  assumes nodes: "map fst (nodes (graph s)) = pre @ v # post"
    and earlier: "map (node_constraints s) pre = map Inr pcs"
    and prev: "dict_get (prev_edges (graph s)) v = Inr es" and ne: "es \<noteq> []"
    and x: "dict_get (node_selected s) v = Inr x"
    and e: "map (dict_get (edge_selected s)) es = map Inr ecols"
    and a: "dict_get (node_appear s) v = Inr a"
    and d: "distinct (x # ecols @ [a])"
  shows "NodeAppear_instantiate_constraints s =
           (concat pcs @
            [\<lparr>coefficients = (x, real (length es)) # map (\<lambda>i. (i, - 1)) ecols @ [(a, - 1)],
              relation = LessEqual, rhs = real (length es) - 1\<rparr>,
             \<lparr>coefficients =
                (x, real (length es)) # map (\<lambda>i. (i, - 1)) ecols @ [(a, - real (length es))],
              relation = GreaterEqual, rhs = 0\<rparr>] @
            fst (constraints_of_nodes s post),
            snd (constraints_of_nodes s post)) \<and>
         node_constraints s v =
           Inr [\<lparr>coefficients = (x, real (length es)) # map (\<lambda>i. (i, - 1)) ecols @ [(a, - 1)],
                 relation = LessEqual, rhs = real (length es) - 1\<rparr>,
                \<lparr>coefficients =
                   (x, real (length es)) # map (\<lambda>i. (i, - 1)) ecols @ [(a, - real (length es))],
                 relation = GreaterEqual, rhs = 0\<rparr>]"
proof -
  have len: "length ecols = length es" using e by (metis length_map)
  have body: "node_constraints s v =
      Inr [\<lparr>coefficients = (x, real (length es)) # map (\<lambda>i. (i, - 1)) ecols @ [(a, - 1)],
            relation = LessEqual, rhs = real (length es) - 1\<rparr>,
           \<lparr>coefficients =
              (x, real (length es)) # map (\<lambda>i. (i, - 1)) ecols @ [(a, - real (length es))],
            relation = GreaterEqual, rhs = 0\<rparr>]"
    using node_constraints_general [OF prev ne x e a d]
    by (simp add: general_constraint1_def general_constraint2_def len)
  from generator_at_node [OF nodes earlier body] body show ?thesis by simp
qed

theorem incoming_edges_two_inequalities_witness:
  "NodeAppear_instantiate_constraints merge_solver =
     ([\<lparr>coefficients = [(0, 1), (5, - 1)], relation = Equal, rhs = 0\<rparr>,
       \<lparr>coefficients = [(1, 1), (6, - 1)], relation = Equal, rhs = 0\<rparr>,
       \<lparr>coefficients = [(2, 2), (3, - 1), (4, - 1), (7, - 1)],
        relation = LessEqual, rhs = 1\<rparr>,
       \<lparr>coefficients = [(2, 2), (3, - 1), (4, - 1), (7, - 2)],
        relation = GreaterEqual, rhs = 0\<rparr>], None) \<and>
   node_constraints merge_solver 2 =
     Inr [\<lparr>coefficients = [(2, 2), (3, - 1), (4, - 1), (7, - 1)],
           relation = LessEqual, rhs = 1\<rparr>,
          \<lparr>coefficients = [(2, 2), (3, - 1), (4, - 1), (7, - 2)],
           relation = GreaterEqual, rhs = 0\<rparr>]"
proof -
  have ne: "[(0, 2), (1, 2)] \<noteq> ([]::EdgeId list)" by simp
  have e: "map (dict_get (edge_selected merge_solver)) [(0, 2), (1, 2)] = map Inr [3, 4]"
    by (simp add: merge_lookups)
  have d: "distinct ((2::nat) # [3, 4] @ [7])" by simp
  from incoming_edges_two_inequalities
    [OF merge_nodes merge_earlier merge_lookups(1) ne merge_lookups(2) e merge_lookups(3) d]
  show ?thesis by simp
qed

text \<open>
  C1, as the code has it: for a node \<open>v\<close> with \<open>k \<ge> 1\<close> incoming edges, pairwise distinct
  columns, and any binary values of \<open>x\<^sub>v\<close> and \<open>e\<^sub>1 \<dots> e\<^sub>k\<close>, a binary value \<open>b\<close> of the
  appear indicator satisfies the two constraints exactly when (\<open>x\<^sub>v = 1\<close> or all \<open>e\<^sub>i = 0\<close>) and
  (\<open>b = 1\<close> iff \<open>x\<^sub>v = 1\<close> and all \<open>e\<^sub>i = 0\<close>). So when \<open>x\<^sub>v = 1\<close> or no incoming edge is
  selected, exactly one binary value is feasible, and it is 1 iff \<open>x\<^sub>v = 1\<close> and all
  \<open>e\<^sub>i = 0\<close>; when \<open>x\<^sub>v = 0\<close> and some incoming edge is selected, no value is feasible.
\<close>

theorem appear_feasible_general:
  assumes prev: "dict_get (prev_edges (graph s)) v = Inr es" and ne: "es \<noteq> []"
    and x: "dict_get (node_selected s) v = Inr x"
    and e: "map (dict_get (edge_selected s)) es = map Inr ecols"
    and a: "dict_get (node_appear s) v = Inr a"
    and d: "distinct (x # ecols @ [a])"
    and bx: "sol x = 0 \<or> sol x = 1"
    and be: "\<forall>i\<in>set ecols. sol i = 0 \<or> sol i = 1"
    and bb: "b = 0 \<or> b = 1"
  shows "appear_feasible s v (sol(a := b)) \<longleftrightarrow>
           (sol x = 1 \<or> (\<forall>i\<in>set ecols. sol i = 0)) \<and>
           (b = 1 \<longleftrightarrow> sol x = 1 \<and> (\<forall>i\<in>set ecols. sol i = 0))"
proof -
  have "ecols \<noteq> []" using e ne by auto
  from appear_feasible_iff [OF d this bx be bb] show ?thesis
    unfolding appear_feasible_def node_constraints_general [OF prev ne x e a d] by simp
qed

theorem appear_feasible_general_witness:
  "appear_feasible merge_solver 2 ((select_columns [2])(7 := 1)) \<and>
   \<not> appear_feasible merge_solver 2 ((select_columns [2])(7 := 0)) \<and>
   appear_feasible merge_solver 2 ((select_columns [2, 3, 4])(7 := 0)) \<and>
   \<not> appear_feasible merge_solver 2 ((select_columns [2, 3, 4])(7 := 1)) \<and>
   appear_feasible merge_solver 2 ((select_columns [])(7 := 0)) \<and>
   \<not> appear_feasible merge_solver 2 ((select_columns [])(7 := 1))"
  using
    appear_feasible_general
      [of merge_solver 2 "[(0, 2), (1, 2)]" 2 "[3, 4]" 7 "select_columns [2]" 1]
    appear_feasible_general
      [of merge_solver 2 "[(0, 2), (1, 2)]" 2 "[3, 4]" 7 "select_columns [2]" 0]
    appear_feasible_general
      [of merge_solver 2 "[(0, 2), (1, 2)]" 2 "[3, 4]" 7 "select_columns [2, 3, 4]" 0]
    appear_feasible_general
      [of merge_solver 2 "[(0, 2), (1, 2)]" 2 "[3, 4]" 7 "select_columns [2, 3, 4]" 1]
    appear_feasible_general
      [of merge_solver 2 "[(0, 2), (1, 2)]" 2 "[3, 4]" 7 "select_columns []" 0]
    appear_feasible_general
      [of merge_solver 2 "[(0, 2), (1, 2)]" 2 "[3, 4]" 7 "select_columns []" 1]
  by (auto simp: merge_lookups select_columns_def)

text \<open>
  The assignment \<open>x\<^sub>v = 0\<close>, \<open>e\<^sub>1 = 1\<close>, \<open>e\<^sub>2 = 0\<close> for node 2 of the merge graph: neither
  value of the appear indicator satisfies the two constraints.
\<close>

theorem appear_infeasible_when_edge_without_node:
  "\<not> appear_feasible merge_solver 2 ((select_columns [3])(7 := 0)) \<and>
   \<not> appear_feasible merge_solver 2 ((select_columns [3])(7 := 1))"
  by (simp add: appear_feasible_def merge_node_constraints all_satisfied_def satisfied_def
      lhs_def select_columns_def)

text \<open>
  C8: \<open>NodeAppear.instantiate\<close> returns exactly the keys of the graph's node mapping, and
  two solver contexts with the same graph get the same collection, whatever variables,
  costs or constraints they hold. (A function of the logic returns the same value on the
  same argument, so two calls on one context agree.)
\<close>

theorem NodeAppear_instantiate_graph_nodes:
  "graph s = graph s' \<Longrightarrow>
   NodeAppear_instantiate s = NodeAppear_instantiate s' \<and>
   set (NodeAppear_instantiate s) = dom (map_of (nodes (graph s)))"
  by (simp add: NodeAppear_instantiate_def dom_map_of_conv_image_fst)

theorem NodeAppear_instantiate_graph_nodes_witness:
  "graph chain_solver = graph chain_solver_no_variables \<and>
   NodeAppear_instantiate chain_solver = NodeAppear_instantiate chain_solver_no_variables \<and>
   NodeAppear_instantiate chain_solver = [0, 1, 2]"
  using NodeAppear_instantiate_graph_nodes [of chain_solver chain_solver_no_variables]
  by (simp add: NodeAppear_instantiate_def chain_solver_no_variables_def chain_solver_def
      chain_graph_def)

section \<open>NodeSelection: the objective after apply\<close>

lemma add_variable_cost_graph [simp]: "graph (add_variable_cost s i v w) = graph s"
  by (simp add: add_variable_cost_def)

lemma add_variable_cost_twice:
  "add_variable_cost (add_variable_cost s i v w) i u w' =
     s\<lparr>objective := \<lambda>j. objective s j + (if j = i then resolve w * v + resolve w' * u else 0)\<rparr>"
  by (auto simp: add_variable_cost_def fun_eq_iff)

lemma contributions_Nil [simp]: "contributions c g [] j = 0"
  by (simp add: contributions_def)

lemma contributions_Cons:
  "contributions c g ((n, i) # items) j =
     (if i = j then node_cost c g n else 0) + contributions c g items j"
  by (simp add: contributions_def)

lemma contributions_other: "j \<notin> snd ` set items \<Longrightarrow> contributions c g items j = 0"
  by (induction items) (auto simp: contributions_Cons)

lemma contributions_distinct:
  "distinct (map snd items) \<Longrightarrow> (n, i) \<in> set items \<Longrightarrow>
   contributions c g items i = node_cost c g n"
proof (induction items)
  case Nil
  then show ?case by simp
next
  case (Cons p items)
  obtain m j where p: "p = (m, j)" by (cases p)
  show ?case
  proof (cases "(n, i) = (m, j)")
    case True
    then have "contributions c g items i = 0"
      using Cons.prems(1) p by (intro contributions_other) auto
    with True p show ?thesis by (simp add: contributions_Cons)
  next
    case False
    with Cons.prems p have mem: "(n, i) \<in> set items" by auto
    then have "i \<in> snd ` set items" by force
    with Cons.prems(1) p have "j \<noteq> i" by auto
    with Cons.IH mem Cons.prems(1) p show ?thesis by (simp add: contributions_Cons)
  qed
qed

lemma node_attribute_error: "node_attribute g n attr = Inl e \<Longrightarrow> e = KeyError"
  by (auto simp: node_attribute_def dict_get_def split: option.splits sum.splits)

text \<open>The loop on a list of items whose nodes all carry the attribute.\<close>

lemma apply_items_all_present:
  "\<forall>(n, i)\<in>set items. \<exists>v. node_attribute (graph s) n (attribute c) = Inr v \<Longrightarrow>
   apply_items c items s =
     (None, s\<lparr>objective := \<lambda>j. objective s j + contributions c (graph s) items j\<rparr>)"
proof (induction items arbitrary: s)
  case Nil
  then show ?case by simp
next
  case (Cons p items)
  obtain n i where p: "p = (n, i)" by (cases p)
  from Cons.prems p obtain v where v: "node_attribute (graph s) n (attribute c) = Inr v" by auto
  let ?s1 = "add_variable_cost (add_variable_cost s i v (weight c)) i 1 (constant_weight c)"
  have g: "graph ?s1 = graph s" by simp
  have rest: "\<forall>(n, i)\<in>set items. \<exists>v. node_attribute (graph ?s1) n (attribute c) = Inr v"
    using Cons.prems unfolding g by simp
  have nc: "node_cost c (graph s) n = resolve (weight c) * v + resolve (constant_weight c) * 1"
    by (simp add: node_cost_def v)
  have "apply_items c (p # items) s = apply_items c items ?s1"
    by (simp add: p v)
  also have "\<dots> =
      (None, ?s1\<lparr>objective := \<lambda>j. objective ?s1 j + contributions c (graph ?s1) items j\<rparr>)"
    by (rule Cons.IH [OF rest])
  also have "?s1\<lparr>objective := \<lambda>j. objective ?s1 j + contributions c (graph ?s1) items j\<rparr> =
      s\<lparr>objective := \<lambda>j. objective s j + contributions c (graph s) (p # items) j\<rparr>"
    unfolding g unfolding add_variable_cost_twice p contributions_Cons nc
    by (auto simp: fun_eq_iff)
  finally show ?case .
qed

text \<open>The loop on a list whose first node without the attribute comes after \<open>pre\<close>.\<close>

lemma apply_items_missing:
  assumes pre: "\<forall>(m, j)\<in>set pre. \<exists>v. node_attribute (graph s) m (attribute c) = Inr v"
    and miss: "node_attribute (graph s) n (attribute c) = Inl e"
  shows "apply_items c (pre @ (n, i) # post) s =
     (Some e, s\<lparr>objective := \<lambda>j. objective s j + contributions c (graph s) pre j\<rparr>)"
  using pre miss
proof (induction pre arbitrary: s)
  case Nil
  then show ?case by simp
next
  case (Cons p pre)
  obtain m j where p: "p = (m, j)" by (cases p)
  from Cons.prems p obtain v where v: "node_attribute (graph s) m (attribute c) = Inr v" by auto
  let ?s1 = "add_variable_cost (add_variable_cost s j v (weight c)) j 1 (constant_weight c)"
  have g: "graph ?s1 = graph s" by simp
  have rest: "\<forall>(m, j)\<in>set pre. \<exists>v. node_attribute (graph ?s1) m (attribute c) = Inr v"
    using Cons.prems unfolding g by simp
  have miss1: "node_attribute (graph ?s1) n (attribute c) = Inl e"
    using Cons.prems unfolding g by simp
  have nc: "node_cost c (graph s) m = resolve (weight c) * v + resolve (constant_weight c) * 1"
    by (simp add: node_cost_def v)
  have "apply_items c ((p # pre) @ (n, i) # post) s = apply_items c (pre @ (n, i) # post) ?s1"
    by (simp add: p v)
  also have "\<dots> =
      (Some e, ?s1\<lparr>objective := \<lambda>j. objective ?s1 j + contributions c (graph ?s1) pre j\<rparr>)"
    by (rule Cons.IH [OF rest miss1])
  also have "?s1\<lparr>objective := \<lambda>j. objective ?s1 j + contributions c (graph ?s1) pre j\<rparr> =
      s\<lparr>objective := \<lambda>j. objective s j + contributions c (graph s) (p # pre) j\<rparr>"
    unfolding g unfolding add_variable_cost_twice p contributions_Cons nc
    by (auto simp: fun_eq_iff)
  finally show ?case .
qed

lemma apply_items_fails:
  "(n, i) \<in> set items \<Longrightarrow> node_attribute (graph s) n (attribute c) = Inl e \<Longrightarrow>
   fst (apply_items c items s) = Some KeyError"
proof (induction items arbitrary: s)
  case Nil
  then show ?case by simp
next
  case (Cons p items)
  obtain m j where p: "p = (m, j)" by (cases p)
  show ?case
  proof (cases "node_attribute (graph s) m (attribute c)")
    case (Inl e')
    then show ?thesis using p node_attribute_error [OF Inl] by simp
  next
    case (Inr v)
    let ?s1 = "add_variable_cost (add_variable_cost s j v (weight c)) j 1 (constant_weight c)"
    have g: "graph ?s1 = graph s" by simp
    from Inr Cons.prems p have mem: "(n, i) \<in> set items" by auto
    have "node_attribute (graph ?s1) n (attribute c) = Inl e" using Cons.prems(2) unfolding g .
    from Cons.IH [OF mem this] show ?thesis by (simp add: p Inr)
  qed
qed

lemma chain_attributes:
  "node_attribute (graph chain_solver) 0 (attribute chain_costs) = Inr 1"
  "node_attribute (graph chain_solver) 1 (attribute chain_costs) = Inr 1"
  "node_attribute (graph chain_solver) 2 (attribute chain_costs) = Inr 1"
  by (simp_all add: chain_solver_def chain_graph_def chain_costs_def NodeSelection_init_def
      node_attribute_def dict_get_def)

lemma chain_apply:
  "NodeSelection_apply chain_costs chain_solver =
     (None, chain_solver\<lparr>objective := \<lambda>j. objective chain_solver j +
         contributions chain_costs (graph chain_solver) (node_selected chain_solver) j\<rparr>)"
proof -
  have "\<forall>(n, i)\<in>set (node_selected chain_solver).
      \<exists>v. node_attribute (graph chain_solver) n (attribute chain_costs) = Inr v"
    using chain_attributes by (simp add: chain_solver_def)
  then show ?thesis unfolding NodeSelection_apply_def by (rule apply_items_all_present)
qed

lemma chain_objective: "objective chain_solver j = 0"
  by (simp add: chain_solver_def)

lemma chain_contributions:
  "contributions chain_costs (graph chain_solver) (node_selected chain_solver) j =
     (if j < 3 then 2.5 else 0)"
  by (auto simp: contributions_def node_cost_def chain_solver_def
        chain_graph_def chain_costs_def NodeSelection_init_def node_attribute_def dict_get_def)

text \<open>
  C4: when every node with a registered selection indicator carries the configured
  attribute and the registered columns are pairwise distinct, \<open>apply\<close> returns normally; the
  objective coefficient of each such node's column has grown by \<open>weight.resolve()\<close> times
  the attribute value plus \<open>constant.resolve()\<close> times 1; the coefficient of every other
  column is unchanged; the constraints are unchanged, and so is everything of the solver
  but the objective.
\<close>

theorem NodeSelection_apply_two_contributions:
  assumes present:
      "\<forall>(n, i)\<in>set (node_selected s). \<exists>v. node_attribute (graph s) n (attribute c) = Inr v"
    and cols: "distinct (map snd (node_selected s))"
  shows "fst (NodeSelection_apply c s) = None \<and>
         (\<forall>(n, i)\<in>set (node_selected s). \<forall>v.
            node_attribute (graph s) n (attribute c) = Inr v \<longrightarrow>
            objective (snd (NodeSelection_apply c s)) i =
              objective s i + resolve (weight c) * v + resolve (constant_weight c) * 1) \<and>
         (\<forall>j. j \<notin> snd ` set (node_selected s) \<longrightarrow>
            objective (snd (NodeSelection_apply c s)) j = objective s j) \<and>
         constraints (snd (NodeSelection_apply c s)) = constraints s \<and>
         snd (NodeSelection_apply c s) =
           s\<lparr>objective := objective (snd (NodeSelection_apply c s))\<rparr>"
proof -
  have res: "NodeSelection_apply c s =
      (None, s\<lparr>objective := \<lambda>j. objective s j + contributions c (graph s) (node_selected s) j\<rparr>)"
    unfolding NodeSelection_apply_def by (rule apply_items_all_present [OF present])
  have one: "objective (snd (NodeSelection_apply c s)) i =
      objective s i + resolve (weight c) * v + resolve (constant_weight c) * 1"
    if "(n, i) \<in> set (node_selected s)" "node_attribute (graph s) n (attribute c) = Inr v"
    for n i v
    using contributions_distinct [OF cols that(1), of c "graph s"] that(2)
    by (simp add: res node_cost_def)
  have other: "objective (snd (NodeSelection_apply c s)) j = objective s j"
    if "j \<notin> snd ` set (node_selected s)" for j
    using contributions_other [OF that, of c "graph s"] by (simp add: res)
  show ?thesis using one other by (auto simp: res)
qed

theorem NodeSelection_apply_two_contributions_witness:
  "fst (NodeSelection_apply chain_costs chain_solver) = None \<and>
   objective (snd (NodeSelection_apply chain_costs chain_solver)) 1 = 0 + 2 * 1 + 0.5 * 1 \<and>
   objective (snd (NodeSelection_apply chain_costs chain_solver)) 6 = 0 \<and>
   constraints (snd (NodeSelection_apply chain_costs chain_solver)) = []"
proof -
  have present: "\<forall>(n, i)\<in>set (node_selected chain_solver).
      \<exists>v. node_attribute (graph chain_solver) n (attribute chain_costs) = Inr v"
    using chain_attributes by (simp add: chain_solver_def)
  have cols: "distinct (map snd (node_selected chain_solver))"
    by (simp add: chain_solver_def)
  note t = NodeSelection_apply_two_contributions [OF present cols]
  have mem: "(1, 1) \<in> set (node_selected chain_solver)" by (simp add: chain_solver_def)
  have out: "6 \<notin> snd ` set (node_selected chain_solver)" by (simp add: chain_solver_def)
  have a: "objective (snd (NodeSelection_apply chain_costs chain_solver)) 1 =
      objective chain_solver 1 + resolve (weight chain_costs) * 1 +
      resolve (constant_weight chain_costs) * 1"
    using t mem chain_attributes(2) by blast
  have b: "objective (snd (NodeSelection_apply chain_costs chain_solver)) 6 =
      objective chain_solver 6"
    using t out by blast
  have c: "constraints (snd (NodeSelection_apply chain_costs chain_solver)) =
      constraints chain_solver"
    using t by blast
  have d: "fst (NodeSelection_apply chain_costs chain_solver) = None" using t by blast
  show ?thesis
    using a b c d by (simp add: chain_solver_def chain_costs_def NodeSelection_init_def)
qed

text \<open>
  C6: if a node with a registered selection indicator is in the graph and its attribute
  dict lacks the configured attribute, \<open>apply\<close> raises an exception of class \<open>LookupError\<close>
  (a \<open>KeyError\<close>); it does not return normally and substitutes no default.
\<close>

theorem NodeSelection_apply_missing_attribute:
  assumes "(n, i) \<in> set (node_selected s)"
    and "dict_get (nodes (graph s)) n = Inr attrs"
    and "attribute c \<notin> fst ` set attrs"
  shows "\<exists>e. fst (NodeSelection_apply c s) = Some e \<and> is_LookupError e"
proof -
  have "map_of attrs (attribute c) = None" using assms(3) by (simp add: map_of_eq_None_iff)
  then have "node_attribute (graph s) n (attribute c) = Inl KeyError"
    unfolding node_attribute_def assms(2) by (simp add: dict_get_def)
  from apply_items_fails [OF assms(1) this] show ?thesis
    by (simp add: NodeSelection_apply_def)
qed

theorem NodeSelection_apply_missing_attribute_witness:
  "\<exists>e. fst (NodeSelection_apply chain_costs chain_solver_no_costs) = Some e \<and> is_LookupError e"
proof -
  have m: "(1, 1) \<in> set (node_selected chain_solver_no_costs)"
    and g: "dict_get (nodes (graph chain_solver_no_costs)) 1 = Inr [(''t'', 1)]"
    and a: "attribute chain_costs \<notin> fst ` set [(''t'', 1::real)]"
    by (simp_all add: chain_solver_no_costs_def chain_solver_def chain_graph_def chain_costs_def
        NodeSelection_init_def dict_get_def)
  show ?thesis by (rule NodeSelection_apply_missing_attribute [OF m g a])
qed

text \<open>
  C10: the nodes are processed in the order of the \<open>NodeSelected\<close> mapping and the attribute
  of a node is read before either of its contributions is added. If the mapping is
  \<open>pre\<close>, then node \<open>n\<close>, then \<open>post\<close>, every node of \<open>pre\<close> carries the attribute and \<open>n\<close>
  does not, then \<open>apply\<close> raises \<open>KeyError\<close> and leaves the solver with exactly the
  contributions of the nodes of \<open>pre\<close> added to the objective: none for \<open>n\<close>, none for
  \<open>post\<close>, and nothing else changed.
\<close>

theorem NodeSelection_apply_partial:
  assumes items: "node_selected s = pre @ (n, i) # post"
    and present: "\<forall>(m, j)\<in>set pre. \<exists>v. node_attribute (graph s) m (attribute c) = Inr v"
    and missing: "node_attribute (graph s) n (attribute c) = Inl e"
  shows "NodeSelection_apply c s =
           (Some KeyError,
            s\<lparr>objective := \<lambda>j. objective s j + contributions c (graph s) pre j\<rparr>)"
  unfolding NodeSelection_apply_def items
  using apply_items_missing [OF present missing] node_attribute_error [OF missing] by simp

theorem NodeSelection_apply_partial_witness:
  "NodeSelection_apply chain_costs chain_solver_no_costs =
     (Some KeyError,
      chain_solver_no_costs\<lparr>objective := \<lambda>j. objective chain_solver_no_costs j +
         contributions chain_costs (graph chain_solver_no_costs) [(0, 0)] j\<rparr>) \<and>
   contributions chain_costs (graph chain_solver_no_costs) [(0, 0)] 0 = 2.5 \<and>
   contributions chain_costs (graph chain_solver_no_costs) [(0, 0)] 1 = 0 \<and>
   contributions chain_costs (graph chain_solver_no_costs) [(0, 0)] 2 = 0"
proof -
  have items: "node_selected chain_solver_no_costs = [(0, 0)] @ (1, 1) # [(2, 2)]"
    by (simp add: chain_solver_no_costs_def chain_solver_def)
  have present: "\<forall>(m, j)\<in>set [(0, 0)].
      \<exists>v. node_attribute (graph chain_solver_no_costs) m (attribute chain_costs) = Inr v"
    by (simp add: chain_solver_no_costs_def chain_solver_def chain_graph_def chain_costs_def
        NodeSelection_init_def node_attribute_def dict_get_def)
  have missing:
    "node_attribute (graph chain_solver_no_costs) 1 (attribute chain_costs) = Inl KeyError"
    by (simp add: chain_solver_no_costs_def chain_solver_def chain_graph_def chain_costs_def
        NodeSelection_init_def node_attribute_def dict_get_def)
  have vals: "contributions chain_costs (graph chain_solver_no_costs) [(0, 0)] 0 = 2.5"
    "contributions chain_costs (graph chain_solver_no_costs) [(0, 0)] 1 = 0"
    "contributions chain_costs (graph chain_solver_no_costs) [(0, 0)] 2 = 0"
    by (simp_all add: contributions_def node_cost_def chain_solver_no_costs_def chain_solver_def
        chain_graph_def chain_costs_def NodeSelection_init_def node_attribute_def dict_get_def)
  from NodeSelection_apply_partial [OF items present missing] vals show ?thesis by simp
qed

section \<open>The chain scenario\<close>

text \<open>
  C5, as the code has it: on the chain \<open>A \<rightarrow> B \<rightarrow> C\<close> with cost attribute 1 on every node,
  weight 2 and constant 0.5, \<open>apply\<close> returns normally and the objective coefficients of the
  selection columns of \<open>A\<close>, \<open>B\<close> and \<open>C\<close> are 2.5 each. Under the assignment that selects
  only node \<open>A\<close> and edge \<open>(A, B)\<close>, the constraint of \<open>A\<close> is satisfied by \<open>a\<^sub>A = 1\<close> and not
  by \<open>a\<^sub>A = 0\<close>, and the constraints of \<open>B\<close> are satisfied by neither value of \<open>a\<^sub>B\<close>. Under
  the assignment that selects nodes \<open>A\<close> and \<open>B\<close> and edge \<open>(A, B)\<close>, all yielded constraints
  are satisfied with \<open>a\<^sub>A = 1\<close>, \<open>a\<^sub>B = 0\<close>, \<open>a\<^sub>C = 0\<close>, and neither \<open>a\<^sub>A = 0\<close> nor \<open>a\<^sub>B = 1\<close> is
  feasible.
\<close>

theorem chain_scenario:
  "fst (NodeSelection_apply chain_costs chain_solver) = None \<and>
   objective (snd (NodeSelection_apply chain_costs chain_solver)) 0 = 2.5 \<and>
   objective (snd (NodeSelection_apply chain_costs chain_solver)) 1 = 2.5 \<and>
   objective (snd (NodeSelection_apply chain_costs chain_solver)) 2 = 2.5 \<and>
   appear_feasible chain_solver 0 ((select_columns [0, 3])(5 := 1)) \<and>
   \<not> appear_feasible chain_solver 0 ((select_columns [0, 3])(5 := 0)) \<and>
   \<not> appear_feasible chain_solver 1 ((select_columns [0, 3])(6 := 0)) \<and>
   \<not> appear_feasible chain_solver 1 ((select_columns [0, 3])(6 := 1)) \<and>
   all_satisfied (select_columns [0, 1, 3, 5])
     (fst (NodeAppear_instantiate_constraints chain_solver)) \<and>
   snd (NodeAppear_instantiate_constraints chain_solver) = None \<and>
   \<not> appear_feasible chain_solver 0 ((select_columns [0, 1, 3])(5 := 0)) \<and>
   \<not> appear_feasible chain_solver 1 ((select_columns [0, 1, 3])(6 := 1))"
proof -
  have costs: "fst (NodeSelection_apply chain_costs chain_solver) = None"
    "objective (snd (NodeSelection_apply chain_costs chain_solver)) 0 = 2.5"
    "objective (snd (NodeSelection_apply chain_costs chain_solver)) 1 = 2.5"
    "objective (snd (NodeSelection_apply chain_costs chain_solver)) 2 = 2.5"
    unfolding chain_apply by (simp_all add: chain_contributions chain_objective)
  have only_A: "appear_feasible chain_solver 0 ((select_columns [0, 3])(5 := 1))"
    "\<not> appear_feasible chain_solver 0 ((select_columns [0, 3])(5 := 0))"
    "\<not> appear_feasible chain_solver 1 ((select_columns [0, 3])(6 := 0))"
    "\<not> appear_feasible chain_solver 1 ((select_columns [0, 3])(6 := 1))"
    by (simp_all add: appear_feasible_def chain_node_constraints all_satisfied_def satisfied_def
        lhs_def select_columns_def)
  have A_and_B:
    "all_satisfied (select_columns [0, 1, 3, 5])
       (fst (NodeAppear_instantiate_constraints chain_solver))"
    "snd (NodeAppear_instantiate_constraints chain_solver) = None"
    "\<not> appear_feasible chain_solver 0 ((select_columns [0, 1, 3])(5 := 0))"
    "\<not> appear_feasible chain_solver 1 ((select_columns [0, 1, 3])(6 := 1))"
    by (simp_all add: appear_feasible_def chain_node_constraints chain_constraints
        all_satisfied_def satisfied_def lhs_def select_columns_def)
  from costs only_A A_and_B show ?thesis by simp
qed

text \<open>
  Selecting only node \<open>A\<close> and edge \<open>(A, B)\<close> with \<open>a\<^sub>A = 1\<close> and \<open>a\<^sub>B = 0\<close> (columns 0, 3 and
  5) violates the yielded constraints, and so does the same with \<open>a\<^sub>B = 1\<close>.
\<close>

theorem chain_scenario_edge_without_node_infeasible:
  "\<not> all_satisfied (select_columns [0, 3, 5])
       (fst (NodeAppear_instantiate_constraints chain_solver)) \<and>
   \<not> all_satisfied (select_columns [0, 3, 5, 6])
       (fst (NodeAppear_instantiate_constraints chain_solver))"
  by (simp add: chain_constraints all_satisfied_def satisfied_def lhs_def select_columns_def)

section \<open>draw_track_graph: options that exclude each other\<close>

lemma unpack_pair_Inl:
  "unpack_pair f = Inl e \<longleftrightarrow> (\<exists>fs. f = Tuple fs \<and> length fs \<noteq> 2) \<and> e = ValueError"
  by (induction f rule: unpack_pair.induct) auto

lemma unpack_pair_Tuple_Inr: "unpack_pair (Tuple fs) = Inr r \<Longrightarrow> length fs = 2"
  using unpack_pair_Inl [of "Tuple fs" ValueError] by (cases "length fs = 2") auto

lemma pick_position_Inr:
  "\<not> (position_attribute a \<noteq> None \<and> position_func a \<noteq> None) \<Longrightarrow>
   \<exists>p. pick_position a = Inr p"
  by (cases "position_func a") (simp_all add: pick_position_def)

lemma pick_alpha_cases:
  "pick_alpha a =
     Inl (RuntimeError ''Only one of alpha_attribute and alpha_func can be given'') \<or>
   pick_alpha a = Inl ValueError \<or> (\<exists>r. pick_alpha a = Inr r)"
  unfolding pick_alpha_def
  by (auto split: option.splits sum.splits simp: unpack_pair_Inl)

lemma pick_alpha_ValueError:
  "pick_alpha a = Inl ValueError \<longleftrightarrow>
     alpha_attribute a = None \<and> (\<exists>fs. alpha_func a = Some (Tuple fs) \<and> length fs \<noteq> 2)"
  unfolding pick_alpha_def
  by (auto split: option.splits sum.splits simp: unpack_pair_Inl dest: unpack_pair_Tuple_Inr)

lemma pick_alpha_RuntimeError:
  "pick_alpha a = Inl (RuntimeError m) \<longleftrightarrow>
     alpha_attribute a \<noteq> None \<and> alpha_func a \<noteq> None \<and>
     m = ''Only one of alpha_attribute and alpha_func can be given''"
  unfolding pick_alpha_def
  by (auto split: option.splits sum.splits simp: unpack_pair_Inl)

text \<open>
  C7, as the code has it: when \<open>position_attribute\<close> and \<open>position_func\<close> are both given,
  \<open>draw_track_graph\<close> raises \<open>RuntimeError\<close>; when they are not both given and
  \<open>alpha_attribute\<close> and \<open>alpha_func\<close> are, it raises \<open>RuntimeError\<close>; when neither of these
  pairs is given in full and \<open>label_attribute\<close> and \<open>label_func\<close> are, it raises
  \<open>RuntimeError\<close>, unless \<open>alpha_func\<close> alone was given as a tuple of a length other than
  two, whose unpacking raises \<open>ValueError\<close> first. Each \<open>RuntimeError\<close> names its pair.
\<close>

theorem draw_track_graph_exclusive_options:
  "(position_attribute a \<noteq> None \<and> position_func a \<noteq> None \<longrightarrow>
      draw_track_graph a =
        Inl (RuntimeError ''Only one of position_attribute and position_func can be given'')) \<and>
   (\<not> (position_attribute a \<noteq> None \<and> position_func a \<noteq> None) \<and>
    alpha_attribute a \<noteq> None \<and> alpha_func a \<noteq> None \<longrightarrow>
      draw_track_graph a =
        Inl (RuntimeError ''Only one of alpha_attribute and alpha_func can be given'')) \<and>
   (\<not> (position_attribute a \<noteq> None \<and> position_func a \<noteq> None) \<and>
    \<not> (alpha_attribute a \<noteq> None \<and> alpha_func a \<noteq> None) \<and>
    label_attribute a \<noteq> None \<and> label_func a \<noteq> None \<longrightarrow>
      draw_track_graph a =
        (if alpha_attribute a = None \<and>
            (\<exists>fs. alpha_func a = Some (Tuple fs) \<and> length fs \<noteq> 2)
         then Inl ValueError
         else Inl (RuntimeError ''Only one of label_attribute and label_func can be given'')))"
proof (intro conjI impI)
  assume "position_attribute a \<noteq> None \<and> position_func a \<noteq> None"
  then show "draw_track_graph a =
      Inl (RuntimeError ''Only one of position_attribute and position_func can be given'')"
    by (simp add: draw_track_graph_def pick_position_def)
next
  assume h: "\<not> (position_attribute a \<noteq> None \<and> position_func a \<noteq> None) \<and>
    alpha_attribute a \<noteq> None \<and> alpha_func a \<noteq> None"
  then have "\<exists>p. pick_position a = Inr p"
    by (intro pick_position_Inr) simp
  moreover from h have "pick_alpha a =
      Inl (RuntimeError ''Only one of alpha_attribute and alpha_func can be given'')"
    by (simp add: pick_alpha_RuntimeError)
  ultimately show "draw_track_graph a =
      Inl (RuntimeError ''Only one of alpha_attribute and alpha_func can be given'')"
    by (auto simp: draw_track_graph_def)
next
  assume h: "\<not> (position_attribute a \<noteq> None \<and> position_func a \<noteq> None) \<and>
    \<not> (alpha_attribute a \<noteq> None \<and> alpha_func a \<noteq> None) \<and>
    label_attribute a \<noteq> None \<and> label_func a \<noteq> None"
  then have "\<exists>p. pick_position a = Inr p"
    by (intro pick_position_Inr) simp
  then obtain p where p: "pick_position a = Inr p" by blast
  from h have l: "pick_label a =
      Inl (RuntimeError ''Only one of label_attribute and label_func can be given'')"
    by (simp add: pick_label_def)
  from h have nr: "pick_alpha a \<noteq>
      Inl (RuntimeError ''Only one of alpha_attribute and alpha_func can be given'')"
    by (simp add: pick_alpha_RuntimeError)
  show "draw_track_graph a =
      (if alpha_attribute a = None \<and> (\<exists>fs. alpha_func a = Some (Tuple fs) \<and> length fs \<noteq> 2)
       then Inl ValueError
       else Inl (RuntimeError ''Only one of label_attribute and label_func can be given''))"
  proof (cases "pick_alpha a = Inl ValueError")
    case True
    then show ?thesis
      using p pick_alpha_ValueError [of a] by (simp add: draw_track_graph_def)
  next
    case False
    with nr pick_alpha_cases [of a] obtain r where r: "pick_alpha a = Inr r" by blast
    from False have
      "\<not> (alpha_attribute a = None \<and> (\<exists>fs. alpha_func a = Some (Tuple fs) \<and> length fs \<noteq> 2))"
      by (simp add: pick_alpha_ValueError)
    then show ?thesis using p r l by (simp add: draw_track_graph_def split: prod.splits)
  qed
qed

theorem draw_track_graph_exclusive_options_witness:
  "draw_track_graph both_position =
     Inl (RuntimeError ''Only one of position_attribute and position_func can be given'') \<and>
   draw_track_graph both_alpha =
     Inl (RuntimeError ''Only one of alpha_attribute and alpha_func can be given'') \<and>
   draw_track_graph both_label =
     Inl (RuntimeError ''Only one of label_attribute and label_func can be given'') \<and>
   draw_track_graph both_label_bad_alpha = Inl ValueError"
  using draw_track_graph_exclusive_options [of both_position]
    draw_track_graph_exclusive_options [of both_alpha]
    draw_track_graph_exclusive_options [of both_label]
    draw_track_graph_exclusive_options [of both_label_bad_alpha]
  by (simp add: both_position_def both_alpha_def both_label_def both_label_bad_alpha_def
      no_args_def)

text \<open>
  With both options of a pair given, the exception raised is not a \<open>ConfigurationError\<close>.
\<close>

theorem draw_track_graph_not_ConfigurationError:
  "draw_track_graph both_position \<noteq> Inl ConfigurationError \<and>
   draw_track_graph both_alpha \<noteq> Inl ConfigurationError \<and>
   draw_track_graph both_label \<noteq> Inl ConfigurationError"
  by (simp add: both_position_def both_alpha_def both_label_def no_args_def
      draw_track_graph_def pick_position_def pick_alpha_def pick_label_def)

end
